theory Spec2Isabelle
  imports Main
begin

section \<open>JavaScript values used by the components\<close>

text \<open>
  A JavaScript string is modelled as a \<^typ>\<open>string\<close>; only splitting at a separator
  character, concatenation, and prefix and suffix tests are used, none of which depends
  on the alphabet. A value that may be \<^verbatim>\<open>undefined\<close> (or \<^verbatim>\<open>null\<close>) is an
  \<^typ>\<open>'a option\<close>, with \<^term>\<open>None\<close> for the missing value.
\<close>

text \<open>\<^verbatim>\<open>s.split(sep)\<close> for a separator of one character: never the empty array.\<close>

fun split :: "char \<Rightarrow> string \<Rightarrow> string list" where
  "split sep [] = [[]]"
| "split sep (c # cs) =
     (if c = sep then [] # split sep cs
      else (case split sep cs of
              [] \<Rightarrow> [[c]]
            | p # ps \<Rightarrow> (c # p) # ps))"

text \<open>\<^verbatim>\<open>parts.join(sep)\<close>.\<close>

fun join :: "string \<Rightarrow> string list \<Rightarrow> string" where
  "join sep [] = []"
| "join sep [p] = p"
| "join sep (p # q # ps) = p @ sep @ join sep (q # ps)"

text \<open>\<^verbatim>\<open>parts[i]\<close>: \<^verbatim>\<open>undefined\<close> out of range.\<close>

definition at :: "'a list \<Rightarrow> nat \<Rightarrow> 'a option" where
  "at xs i = (if i < length xs then Some (xs ! i) else None)"

text \<open>
  \<^verbatim>\<open>parts.pop()\<close>: the removed last element (\<^verbatim>\<open>undefined\<close> on the empty array) and
  the array as it is left.
\<close>

definition pop :: "'a list \<Rightarrow> 'a option \<times> 'a list" where
  "pop xs = (if xs = [] then (None, []) else (Some (last xs), butlast xs))"

text \<open>Truthiness of a string that may be missing, and of a flag that may be missing.\<close>

definition truthy :: "string option \<Rightarrow> bool" where
  "truthy s = (case s of None \<Rightarrow> False | Some t \<Rightarrow> t \<noteq> [])"

definition truthyFlag :: "bool option \<Rightarrow> bool" where
  "truthyFlag b = (case b of None \<Rightarrow> False | Some t \<Rightarrow> t)"

text \<open>A value interpolated in a template literal.\<close>

definition interpolate :: "string option \<Rightarrow> string" where
  "interpolate s = (case s of None \<Rightarrow> ''undefined'' | Some t \<Rightarrow> t)"

definition startsWith :: "string \<Rightarrow> string \<Rightarrow> bool" where
  "startsWith s p = (take (length p) s = p)"

definition endsWith :: "string \<Rightarrow> string \<Rightarrow> bool" where
  "endsWith s p = (length p \<le> length s \<and> drop (length s - length p) s = p)"

section \<open>Doc nodes\<close>

datatype DocNodeKind =
  Namespace | Class | Enum | Variable | Function | Interface | TypeAlias | ModuleDoc | Import

datatype JsDoc = JsDoc (doc: "string option") (tags: "string list")

text \<open>
  A doc node: its name, its kind, its doc comment if it has one, and the child nodes
  (\<^verbatim>\<open>namespaceDef.elements\<close>), which only a node of kind \<^term>\<open>Namespace\<close> is read for.
\<close>

datatype DocNode =
  DocNode (name: string) (kind: DocNodeKind) (jsDoc: "JsDoc option")
    (namespaceDef_elements: "DocNode list")

section \<open>The usage statement\<close>

text \<open>
  The result of \<^verbatim>\<open>parseURL\<close>, which is imported from \<^verbatim>\<open>util.ts\<close>, as is
  \<^verbatim>\<open>camelize\<close>: both are parameters of \<open>parseUsage\<close>.
\<close>

record ParsedURL =
  registry :: string
  org :: "string option"
  package :: "string option"
  version :: "string option"
  module :: "string option"

text \<open>
  The fields hold the JavaScript values that the function returns, so that a field that
  is \<^verbatim>\<open>undefined\<close> at run time is \<^term>\<open>None\<close> here, whatever the interface declares.
\<close>

record ParsedUsage =
  importSymbol :: "string option"
  usageSymbol :: "string option"
  localVar :: "string option"
  importStatement :: string

definition parseUsage ::
  "(string \<Rightarrow> ParsedURL option) \<Rightarrow> (string \<Rightarrow> string) \<Rightarrow>
   string \<Rightarrow> string option \<Rightarrow> bool option \<Rightarrow> ParsedUsage" where
  \<open>parseUsage parseURL camelize url item isType =
    (let parsed = parseURL url;
         itemParts = map_option (split CHR ''.'') item;
         importSymbol =
           (case itemParts of
              Some parts \<Rightarrow> at parts 0
            | None \<Rightarrow>
                Some (camelize
                  (case parsed of
                     None \<Rightarrow> ''mod''
                   | Some p \<Rightarrow> (case package p of None \<Rightarrow> ''mod'' | Some k \<Rightarrow> k))));
         (usageSymbol, itemParts) =
           (case itemParts of
              Some parts \<Rightarrow>
                if length parts > 1 then (fst (pop parts), Some (snd (pop parts)))
                else (None, Some parts)
            | None \<Rightarrow> (None, None));
         localVar = map_option (join ''.'') itemParts;
         importStatement =
           (if truthy item
            then ''import '' @ (if truthyFlag isType then ''type '' else '''') @ ''{ ''
                 @ interpolate importSymbol @ '' } from "'' @ url @ ''";\<newline>''
            else ''import * as '' @ interpolate importSymbol @ '' from "'' @ url
                 @ ''";\<newline>'');
         importStatement =
           (if truthy usageSymbol
            then importStatement @ ''\<newline>const { '' @ interpolate usageSymbol @ '' } = ''
                 @ interpolate localVar @ '';\<newline>''
            else importStatement)
     in \<lparr> importSymbol = importSymbol, usageSymbol = usageSymbol, localVar = localVar,
          importStatement = importStatement \<rparr>)\<close>


text \<open>
  What the \<^verbatim>\<open>Usage\<close> component renders from its properties: whether the heading is
  shown, whether the import is a named one, whether the \<^verbatim>\<open>type\<close> keyword is shown,
  the imported symbol and the module, the destructuring line (the used symbol and the
  local variable) when there is one, and the statement that the copy button copies.
\<close>

record UsageView =
  usageHeading :: bool
  usageNamed :: bool
  usageTypeKeyword :: bool
  usageImportSymbol :: "string option"
  usageFrom :: string
  usageDestructure :: "(string option \<times> string option) option"
  usageCopy :: string

definition Usage ::
  "(string \<Rightarrow> ParsedURL option) \<Rightarrow> (string \<Rightarrow> string) \<Rightarrow>
   string \<Rightarrow> string option \<Rightarrow> bool option \<Rightarrow> UsageView" where
  "Usage parseURL camelize url item isType =
    (let r = parseUsage parseURL camelize url item isType
     in \<lparr> usageHeading = (\<not> truthy item),
          usageNamed = truthy item,
          usageTypeKeyword = (truthy item \<and> truthyFlag isType),
          usageImportSymbol = importSymbol r,
          usageFrom = url,
          usageDestructure =
            (if truthy (usageSymbol r) then Some (usageSymbol r, localVar r) else None),
          usageCopy = importStatement r \<rparr>)"

section \<open>Dispatch on the kind of a node\<close>

text \<open>For a given set of nodes, do they only contain type only nodes.\<close>

definition isTypeOnly :: "DocNode list \<Rightarrow> bool" where
  "isTypeOnly nodes = list_all (\<lambda>node. kind node = Interface \<or> kind node = TypeAlias) nodes"

datatype CodeElem =
  ClassCodeBlock DocNode
| EnumCodeBlock DocNode
| InterfaceCodeBlock DocNode
| TypeAliasCodeBlock DocNode
| VariableCodeBlock DocNode
| is_FnCodeBlock: FnCodeBlock "DocNode list"

text \<open>The \<^verbatim>\<open>switch\<close> of \<^verbatim>\<open>CodeBlock\<close>: what it pushes for one node.\<close>

definition CodeBlock_switch :: "DocNode \<Rightarrow> CodeElem list" where
  "CodeBlock_switch node =
    (case kind node of
       Class \<Rightarrow> [ClassCodeBlock node]
     | Enum \<Rightarrow> [EnumCodeBlock node]
     | Interface \<Rightarrow> [InterfaceCodeBlock node]
     | TypeAlias \<Rightarrow> [TypeAliasCodeBlock node]
     | Variable \<Rightarrow> [VariableCodeBlock node]
     | _ \<Rightarrow> [])"

text \<open>The loop of \<^verbatim>\<open>CodeBlock\<close> over the nodes, pushing onto \<open>elements\<close>.\<close>

fun CodeBlock_loop :: "CodeElem list \<Rightarrow> DocNode list \<Rightarrow> CodeElem list" where
  "CodeBlock_loop elements [] = elements"
| "CodeBlock_loop elements (node # nodes) =
     CodeBlock_loop (elements @ CodeBlock_switch node) nodes"

definition CodeBlock :: "DocNode list \<Rightarrow> CodeElem list" where
  "CodeBlock nodes =
    (let elements = CodeBlock_loop [] nodes;
         fnNodes = filter (\<lambda>n. kind n = Function) nodes
     in if length fnNodes \<noteq> 0 then elements @ [FnCodeBlock fnNodes] else elements)"

datatype DocElem =
  ClassDoc DocNode
| EnumDoc DocNode
| InterfaceDoc DocNode
| NamespaceDoc "string list" DocNode
| TypeAliasDoc DocNode
| is_FnDoc: FnDoc "DocNode list"

definition Doc_switch :: "string list \<Rightarrow> DocNode \<Rightarrow> DocElem list" where
  "Doc_switch path node =
    (case kind node of
       Class \<Rightarrow> [ClassDoc node]
     | Enum \<Rightarrow> [EnumDoc node]
     | Interface \<Rightarrow> [InterfaceDoc node]
     | Namespace \<Rightarrow> [NamespaceDoc path node]
     | TypeAlias \<Rightarrow> [TypeAliasDoc node]
     | _ \<Rightarrow> [])"

fun Doc_loop :: "string list \<Rightarrow> DocElem list \<Rightarrow> DocNode list \<Rightarrow> DocElem list" where
  "Doc_loop path elements [] = elements"
| "Doc_loop path elements (node # nodes) =
     Doc_loop path (elements @ Doc_switch path node) nodes"

definition Doc :: "string list \<Rightarrow> DocNode list \<Rightarrow> DocElem list" where
  "Doc path nodes =
    (let elements = Doc_loop path [] nodes;
         fnNodes = filter (\<lambda>n. kind n = Function) nodes
     in if length fnNodes \<noteq> 0 then elements @ [FnDoc fnNodes] else elements)"

datatype TocElem =
  ClassToc DocNode
| EnumToc DocNode
| InterfaceToc DocNode
| NamespaceToc DocNode
| TypeAliasToc DocNode

text \<open>The final \<^verbatim>\<open>switch\<close> of \<^verbatim>\<open>DocToc\<close>; \<^term>\<open>None\<close> is no table of contents.\<close>

definition DocToc_switch :: "DocNode \<Rightarrow> TocElem option" where
  "DocToc_switch node =
    (case kind node of
       Class \<Rightarrow> Some (ClassToc node)
     | Enum \<Rightarrow> Some (EnumToc node)
     | Interface \<Rightarrow> Some (InterfaceToc node)
     | Namespace \<Rightarrow> Some (NamespaceToc node)
     | TypeAlias \<Rightarrow> Some (TypeAliasToc node)
     | _ \<Rightarrow> None)"

definition DocToc :: "DocNode list \<Rightarrow> TocElem option" where
  "DocToc nodes =
    (if length nodes = 0 then None
     else if length nodes > 1 then
       (if length nodes = 2 then
          (case find (\<lambda>n. kind n = Interface) nodes of
             Some maybeNode \<Rightarrow> DocToc_switch maybeNode
           | None \<Rightarrow> None)
        else None)
     else (case at nodes 0 of Some node \<Rightarrow> DocToc_switch node | None \<Rightarrow> None))"

section \<open>The page\<close>

text \<open>
  The render state of \<^verbatim>\<open>store\<close> (declared in \<^verbatim>\<open>shared.ts\<close>), with the fields that
  \<^verbatim>\<open>DocPage\<close> reads and writes.
\<close>

record StoreState =
  state_entries :: "DocNode list"
  state_url :: string
  state_includePrivate :: bool
  state_namespaces :: "DocNode list"

text \<open>
  A rendered page is the class of its outer element and its parts in document order (the
  \<^verbatim>\<open>nav\<close> and \<^verbatim>\<open>article\<close> wrappers are not kept). \<^verbatim>\<open>DocMeta\<close>,
  \<^verbatim>\<open>SideBarHeader\<close>, \<^verbatim>\<open>ModuleToc\<close>, \<^verbatim>\<open>Tag\<close> and \<^verbatim>\<open>JsDoc\<close> are kept as
  the component with its properties; the type \<^typ>\<open>'c\<close> is the collection that
  \<^verbatim>\<open>asCollection\<close> (of \<^verbatim>\<open>common.tsx\<close>) builds.
\<close>

datatype 'c Part =
  Heading string string
| is_ErrorMessage: ErrorMessage string string
| DocMeta string string "string option"
| SideBarHeader string
| Toc TocElem
| ModuleToc bool 'c
| is_UsageBlock: UsageBlock UsageView
| Tag string string
| JsDocBlock "JsDoc option"
| is_Code: Code CodeElem
| is_DocSection: DocSection DocElem
| Sections 'c

datatype 'c Page = Page (pageClass: string) (parts: "'c Part list")

definition DocNodes ::
  "(string \<Rightarrow> ParsedURL option) \<Rightarrow> (string \<Rightarrow> string) \<Rightarrow>
   string \<Rightarrow> bool \<Rightarrow> 'c \<Rightarrow> 'c Part list" where
  "DocNodes parseURL camelize url library collection =
    (if endsWith url ''.d.ts'' \<or> library then []
     else [UsageBlock (Usage parseURL camelize url None None)])
    @ [Sections collection]"

text \<open>The namespace of a given name in an entry list: the first one, if there is one.\<close>

definition findNamespace :: "DocNode list \<Rightarrow> string \<Rightarrow> DocNode option" where
  "findNamespace entries name' = find (\<lambda>n. kind n = Namespace \<and> name n = name') entries"

text \<open>
  The loop of \<^verbatim>\<open>DocPage\<close> over the segments before the last one: the entry list and
  the namespaces found so far, after each segment.
\<close>

fun DocPage_resolve ::
  "DocNode list \<Rightarrow> DocNode list \<Rightarrow> string list \<Rightarrow> DocNode list \<times> DocNode list" where
  "DocPage_resolve entries namespaces [] = (entries, namespaces)"
| "DocPage_resolve entries namespaces (name' # path) =
     (case findNamespace entries name' of
        Some namespace \<Rightarrow>
          DocPage_resolve (namespaceDef_elements namespace) (namespaces @ [namespace]) path
      | None \<Rightarrow> DocPage_resolve entries namespaces path)"

text \<open>
  The first part of the item branch of \<^verbatim>\<open>DocPage\<close>, for a truthy item: the segments
  before the last one, the state as it is left, the entry list reached and the target
  nodes found there.
\<close>

definition DocPage_lookup ::
  "StoreState \<Rightarrow> string \<Rightarrow> string list \<times> StoreState \<times> DocNode list \<times> DocNode list" where
  "DocPage_lookup state item =
    (let entries = state_entries state;
         (name', path) = pop (split CHR ''.'' item);
         (entries, state) =
           (if length path \<noteq> 0
            then (let (entries, namespaces) = DocPage_resolve entries [] path
                  in (entries, state\<lparr>state_namespaces := namespaces\<rparr>))
            else (entries, state));
         nodes = filter (\<lambda>e. Some (name e) = name' \<and> kind e \<noteq> Import) entries
     in (path, state, entries, nodes))"

text \<open>The doc comment of the first node that has one.\<close>

fun DocPage_jsDoc :: "DocNode list \<Rightarrow> JsDoc option" where
  "DocPage_jsDoc [] = None"
| "DocPage_jsDoc (node # nodes) =
     (case jsDoc node of Some d \<Rightarrow> Some d | None \<Rightarrow> DocPage_jsDoc nodes)"

definition jsDoc_doc :: "JsDoc option \<Rightarrow> string" where
  "jsDoc_doc j =
    (case j of
       None \<Rightarrow> []
     | Some d \<Rightarrow> (case doc d of None \<Rightarrow> [] | Some t \<Rightarrow> t))"

text \<open>
  \<^verbatim>\<open>DocPage\<close>: the page and the state as it is left. \<^verbatim>\<open>isAbstract\<close>,
  \<^verbatim>\<open>isDeprecated\<close> and \<^verbatim>\<open>asCollection\<close> are imported, and are parameters here, as
  \<^verbatim>\<open>parseURL\<close> and \<^verbatim>\<open>camelize\<close> are.
\<close>

definition DocPage ::
  "(string \<Rightarrow> ParsedURL option) \<Rightarrow> (string \<Rightarrow> string) \<Rightarrow> (DocNode \<Rightarrow> bool) \<Rightarrow>
   (JsDoc option \<Rightarrow> bool) \<Rightarrow> (DocNode list \<Rightarrow> bool \<Rightarrow> 'c) \<Rightarrow>
   StoreState \<Rightarrow> string option \<Rightarrow> 'c Page \<times> StoreState" where
  \<open>DocPage parseURL camelize isAbstract isDeprecated asCollection state item =
    (let entries = state_entries state;
         url = state_url state;
         includePrivate = state_includePrivate state;
         collection = asCollection entries includePrivate;
         library = startsWith url ''deno/''
     in case (if truthy item then item else None) of
          Some item \<Rightarrow>
            (let (path, state, entries, nodes) = DocPage_lookup state item
             in case nodes of
                  [] \<Rightarrow>
                    (Page ''main''
                       [Heading ''mainHeader'' ''Deno Doc'',
                        ErrorMessage ''Entry not found''
                          (''The document entry named "'' @ item
                           @ ''" was not found in specifier "'' @ url @ ''".'')],
                     state)
                | node0 # _ \<Rightarrow>
                    (let jsDoc = DocPage_jsDoc nodes
                     in (Page ''content''
                           ([DocMeta url (jsDoc_doc jsDoc) (Some item), SideBarHeader url]
                            @ (case DocToc nodes of None \<Rightarrow> [] | Some toc \<Rightarrow> [Toc toc])
                            @ [Heading ''docTitle'' item]
                            @ (if endsWith url ''.d.ts'' \<or> library then []
                               else [UsageBlock
                                       (Usage parseURL camelize url (Some item)
                                          (Some (isTypeOnly nodes)))])
                            @ (if isAbstract node0 then [Tag ''yellow'' ''abstract''] else [])
                            @ (if isDeprecated jsDoc then [Tag ''gray'' ''deprecated'']
                               else [])
                            @ [JsDocBlock jsDoc]
                            @ map Code (CodeBlock nodes)
                            @ map DocSection (Doc path nodes)),
                         state)))
        | None \<Rightarrow>
            (let jsDoc =
                   (case find (\<lambda>n. kind n = ModuleDoc) entries of
                      None \<Rightarrow> None
                    | Some n \<Rightarrow> jsDoc n)
             in (Page ''content''
                   ([DocMeta url (jsDoc_doc jsDoc) None, SideBarHeader url,
                     ModuleToc library collection]
                    @ DocNodes parseURL camelize url library collection),
                 state)))\<close>

section \<open>Sample inputs\<close>

text \<open>
  Values at which the theorems below are instantiated: a module with one namespace
  \<^verbatim>\<open>Ns\<close> that holds a class \<^verbatim>\<open>Item\<close>, a module with one interface \<^verbatim>\<open>A\<close>, and
  arguments for the imported functions (no theorem depends on what these return).
\<close>

definition example_item :: DocNode where
  "example_item = DocNode ''Item'' Class None []"

definition example_namespace :: DocNode where
  "example_namespace = DocNode ''Ns'' Namespace None [example_item]"

definition example_state :: StoreState where
  "example_state =
    \<lparr> state_entries = [example_namespace], state_url = ''https://deno.land/x/p/mod.ts'',
      state_includePrivate = False, state_namespaces = [] \<rparr>"

definition example_interface :: DocNode where
  "example_interface = DocNode ''A'' Interface None []"

definition example_state_interface :: StoreState where
  "example_state_interface =
    \<lparr> state_entries = [example_interface], state_url = ''https://deno.land/x/p/mod.ts'',
      state_includePrivate = False, state_namespaces = [] \<rparr>"

definition example_parseURL :: "string \<Rightarrow> ParsedURL option" where
  "example_parseURL url = None"

definition example_camelize :: "string \<Rightarrow> string" where
  "example_camelize s = s"

definition example_isAbstract :: "DocNode \<Rightarrow> bool" where
  "example_isAbstract node = False"

definition example_isDeprecated :: "JsDoc option \<Rightarrow> bool" where
  "example_isDeprecated j = False"

definition example_asCollection :: "DocNode list \<Rightarrow> bool \<Rightarrow> DocNode list" where
  "example_asCollection entries includePrivate = entries"

section \<open>The usage statement: properties\<close>

lemma split_not_Nil: "split sep s \<noteq> []"
  by (induction s) (auto split: list.splits)

lemma at_0: "xs \<noteq> [] \<Longrightarrow> at xs 0 = Some (hd xs)"
  by (cases xs) (simp_all add: at_def)

lemma importSymbol_item:
  "importSymbol (parseUsage pu cz u (Some item) isType) = Some (hd (split CHR ''.'' item))"
  by (simp add: parseUsage_def Let_def at_0 split_not_Nil split: prod.splits)

lemma importSymbol_no_item:
  "importSymbol (parseUsage pu cz u None isType) =
     Some (cz (case pu u of
                 None \<Rightarrow> ''mod''
               | Some p \<Rightarrow> (case package p of None \<Rightarrow> ''mod'' | Some k \<Rightarrow> k)))"
  by (simp add: parseUsage_def Let_def)

lemma importStatement_newline:
  "importStatement (parseUsage pu cz u item isType) \<noteq> []
   \<and> last (importStatement (parseUsage pu cz u item isType)) = CHR ''\<newline>''"
  by (simp add: parseUsage_def Let_def split: prod.splits)

lemma usageSymbol_item:
  "usageSymbol (parseUsage pu cz u (Some item) isType) =
     (if 2 \<le> length (split CHR ''.'' item) then Some (last (split CHR ''.'' item)) else None)"
  using split_not_Nil[of "CHR ''.''" item]
  by (auto simp add: parseUsage_def Let_def pop_def split: prod.splits)

lemma localVar_item:
  "localVar (parseUsage pu cz u (Some item) isType) =
     Some (join ''.'' (if 2 \<le> length (split CHR ''.'' item)
                       then butlast (split CHR ''.'' item) else split CHR ''.'' item))"
  using split_not_Nil[of "CHR ''.''" item]
  by (auto simp add: parseUsage_def Let_def pop_def split: prod.splits)

text \<open>
  C1, as the code has it. For every module and every item string, \<open>usageSymbol\<close> is
  present if and only if the dotted item path has at least two segments, and is then the
  last segment. \<open>localVar\<close> is present for every item: it is the segments that are left
  once the used symbol is taken off, joined with a dot, so for an item of one segment it
  is the item itself. Hence \<open>localVar\<close> is present whenever \<open>usageSymbol\<close> is, and not
  the other way round.
\<close>

theorem parseUsage_usageSymbol_localVar:
  "(usageSymbol (parseUsage pu cz u (Some item) isType) \<noteq> None)
     = (2 \<le> length (split CHR ''.'' item))
   \<and> usageSymbol (parseUsage pu cz u (Some item) isType) =
       (if 2 \<le> length (split CHR ''.'' item) then Some (last (split CHR ''.'' item))
        else None)
   \<and> localVar (parseUsage pu cz u (Some item) isType) =
       Some (join ''.'' (if 2 \<le> length (split CHR ''.'' item)
                         then butlast (split CHR ''.'' item) else split CHR ''.'' item))"
  by (simp add: usageSymbol_item localVar_item)

text \<open>
  The item \<^verbatim>\<open>Foo\<close> has one segment; its \<open>localVar\<close> is present (it is \<^verbatim>\<open>Foo\<close>) and
  its \<open>usageSymbol\<close> is not.
\<close>

theorem parseUsage_single_segment_localVar:
  "length (split CHR ''.'' ''Foo'') = 1
   \<and> localVar (parseUsage example_parseURL example_camelize ''https://deno.land/x/p/mod.ts''
        (Some ''Foo'') None) = Some ''Foo''
   \<and> usageSymbol (parseUsage example_parseURL example_camelize ''https://deno.land/x/p/mod.ts''
        (Some ''Foo'') None) = None"
  by (simp add: parseUsage_def Let_def pop_def)

text \<open>
  C3. For every module, the usage of the item \<^verbatim>\<open>Foo.bar\<close> as a type imports \<^verbatim>\<open>Foo\<close>,
  uses \<^verbatim>\<open>bar\<close> out of the local variable \<^verbatim>\<open>Foo\<close>, and its statement is the type
  import of \<^verbatim>\<open>Foo\<close> from the module, an empty line, and the destructuring of \<^verbatim>\<open>bar\<close>
  from \<^verbatim>\<open>Foo\<close>.
\<close>

theorem parseUsage_Foo_bar:
  \<open>parseUsage pu cz u (Some ''Foo.bar'') (Some True) =
     \<lparr> importSymbol = Some ''Foo'', usageSymbol = Some ''bar'', localVar = Some ''Foo'',
       importStatement =
         ''import type { Foo } from "'' @ u @ ''";\<newline>'' @ ''\<newline>''
         @ ''const { bar } = Foo;\<newline>'' \<rparr>\<close>
  by (simp add: parseUsage_def Let_def at_def pop_def truthy_def truthyFlag_def
      interpolate_def)

text \<open>
  C8. \<open>parseUsage\<close> is a function of its arguments, and for every module, every item
  (given or not) and every flag (given or not) its result has an import symbol that is
  defined and a statement that is not empty and ends with a newline. The imported
  \<^verbatim>\<open>parseURL\<close> and \<^verbatim>\<open>camelize\<close> are taken as functions that return.
\<close>

theorem parseUsage_total:
  "(\<exists>sym. importSymbol (parseUsage pu cz u item isType) = Some sym)
   \<and> importStatement (parseUsage pu cz u item isType) \<noteq> []
   \<and> last (importStatement (parseUsage pu cz u item isType)) = CHR ''\<newline>''"
  using importStatement_newline[of pu cz u item isType]
  by (cases item) (simp_all add: importSymbol_item importSymbol_no_item)

text \<open>
  C9. For the empty item the import symbol and the local variable are the empty string,
  there is no used symbol, and the statement is the namespace import with an empty
  symbol, whatever the flag.
\<close>

theorem parseUsage_empty_item:
  \<open>parseUsage pu cz u (Some []) isType =
     \<lparr> importSymbol = Some [], usageSymbol = None, localVar = Some [],
       importStatement = ''import * as  from "'' @ u @ ''";\<newline>'' \<rparr>\<close>
  by (simp add: parseUsage_def Let_def at_def pop_def truthy_def truthyFlag_def
      interpolate_def)

section \<open>Dispatch on the kind of a node: properties\<close>

lemma CodeBlock_loop_concat:
  "CodeBlock_loop elements nodes = elements @ concat (map CodeBlock_switch nodes)"
  by (induction nodes arbitrary: elements) simp_all

lemma Doc_loop_concat:
  "Doc_loop path elements nodes = elements @ concat (map (Doc_switch path) nodes)"
  by (induction nodes arbitrary: elements) simp_all

lemma CodeBlock_eq:
  "CodeBlock nodes =
     concat (map CodeBlock_switch nodes)
     @ (if filter (\<lambda>n. kind n = Function) nodes = [] then []
        else [FnCodeBlock (filter (\<lambda>n. kind n = Function) nodes)])"
  by (simp add: CodeBlock_def Let_def CodeBlock_loop_concat)

lemma Doc_eq:
  "Doc path nodes =
     concat (map (Doc_switch path) nodes)
     @ (if filter (\<lambda>n. kind n = Function) nodes = [] then []
        else [FnDoc (filter (\<lambda>n. kind n = Function) nodes)])"
  by (simp add: Doc_def Let_def Doc_loop_concat)

lemma CodeBlock_switch_no_fn:
  "\<not> list_ex is_FnCodeBlock (concat (map CodeBlock_switch nodes))"
  by (induction nodes) (simp_all add: CodeBlock_switch_def split: DocNodeKind.splits)

lemma Doc_switch_no_fn: "\<not> list_ex is_FnDoc (concat (map (Doc_switch path) nodes))"
  by (induction nodes) (simp_all add: Doc_switch_def split: DocNodeKind.splits)

lemma CodeBlock_switch_Function: "kind n = Function \<Longrightarrow> CodeBlock_switch n = []"
  by (simp add: CodeBlock_switch_def)

lemma Doc_switch_Function: "kind n = Function \<Longrightarrow> Doc_switch path n = []"
  by (simp add: Doc_switch_def)

lemma concat_CodeBlock_switch_others:
  "concat (map CodeBlock_switch (filter (\<lambda>n. kind n \<noteq> Function) nodes)) =
     concat (map CodeBlock_switch nodes)"
  by (induction nodes) (simp_all add: CodeBlock_switch_Function)

lemma concat_Doc_switch_others:
  "concat (map (Doc_switch path) (filter (\<lambda>n. kind n \<noteq> Function) nodes)) =
     concat (map (Doc_switch path) nodes)"
  by (induction nodes) (simp_all add: Doc_switch_Function)

lemma concat_CodeBlock_switch_functions:
  "concat (map CodeBlock_switch (filter (\<lambda>n. kind n = Function) nodes)) = []"
  by (induction nodes) (simp_all add: CodeBlock_switch_Function)

lemma concat_Doc_switch_functions:
  "concat (map (Doc_switch path) (filter (\<lambda>n. kind n = Function) nodes)) = []"
  by (induction nodes) (simp_all add: Doc_switch_Function)

lemma filter_functions_first:
  "filter (\<lambda>n. kind n = Function)
     (filter (\<lambda>n. kind n = Function) nodes @ filter (\<lambda>n. kind n \<noteq> Function) nodes) =
   filter (\<lambda>n. kind n = Function) nodes"
  by (induction nodes) simp_all

lemma count_switch_Class:
  "count_list (CodeBlock_switch m) (ClassCodeBlock n) = (if kind n = Class \<and> m = n then 1 else 0)"
  by (auto simp add: CodeBlock_switch_def split: DocNodeKind.splits)

lemma count_switch_Enum:
  "count_list (CodeBlock_switch m) (EnumCodeBlock n) = (if kind n = Enum \<and> m = n then 1 else 0)"
  by (auto simp add: CodeBlock_switch_def split: DocNodeKind.splits)

lemma count_switch_Interface:
  "count_list (CodeBlock_switch m) (InterfaceCodeBlock n) =
     (if kind n = Interface \<and> m = n then 1 else 0)"
  by (auto simp add: CodeBlock_switch_def split: DocNodeKind.splits)

lemma count_switch_TypeAlias:
  "count_list (CodeBlock_switch m) (TypeAliasCodeBlock n) =
     (if kind n = TypeAlias \<and> m = n then 1 else 0)"
  by (auto simp add: CodeBlock_switch_def split: DocNodeKind.splits)

lemma count_switch_Variable:
  "count_list (CodeBlock_switch m) (VariableCodeBlock n) =
     (if kind n = Variable \<and> m = n then 1 else 0)"
  by (auto simp add: CodeBlock_switch_def split: DocNodeKind.splits)

lemma count_switch_Fn: "count_list (CodeBlock_switch m) (FnCodeBlock ns) = 0"
  by (auto simp add: CodeBlock_switch_def split: DocNodeKind.splits)

lemma count_concat_switch:
  assumes "\<And>m. count_list (CodeBlock_switch m) b = (if P \<and> m = n then 1 else 0)"
  shows "count_list (concat (map CodeBlock_switch nodes)) b =
           (if P then count_list nodes n else 0)"
  by (induction nodes) (simp_all add: assms)

lemma count_concat_switch_Fn:
  "count_list (concat (map CodeBlock_switch nodes)) (FnCodeBlock ns) = 0"
  by (induction nodes) (simp_all add: count_switch_Fn)

lemma length_concat_switch:
  "length (concat (map CodeBlock_switch nodes)) =
     length (filter (\<lambda>n. kind n \<in> {Class, Enum, Interface, TypeAlias, Variable}) nodes)"
  by (induction nodes) (simp_all add: CodeBlock_switch_def split: DocNodeKind.splits)

text \<open>
  C6. The table of contents of an item page. With no node there is none. With one node
  it is the one of the node's kind for a class, an enum, an interface, a namespace or a
  type alias, and there is none for any other kind. With two nodes it is the one of the
  interface among them (the first, if both are), and there is none if neither is an
  interface. With three nodes or more there is none.
\<close>

theorem DocToc_cases:
  "DocToc [] = None
   \<and> DocToc [n] =
       (case kind n of
          Class \<Rightarrow> Some (ClassToc n)
        | Enum \<Rightarrow> Some (EnumToc n)
        | Interface \<Rightarrow> Some (InterfaceToc n)
        | Namespace \<Rightarrow> Some (NamespaceToc n)
        | TypeAlias \<Rightarrow> Some (TypeAliasToc n)
        | _ \<Rightarrow> None)
   \<and> DocToc [a, b] =
       (if kind a = Interface then Some (InterfaceToc a)
        else if kind b = Interface then Some (InterfaceToc b)
        else None)
   \<and> DocToc (a # b # c # nodes) = None"
  by (simp add: DocToc_def DocToc_switch_def at_def)

text \<open>
  C7. The code blocks of a node list, counted. The block of a class, of an enum, of an
  interface, of a type alias or of a variable occurs as often as its node occurs in the
  input, and not at all for a node of another kind. A block of functions occurs once if
  it is the block of all the function nodes of the input and there is at least one, and
  not at all otherwise. So the blocks are as many as the nodes of those five kinds, and
  one more if there is a function node; a node of another kind has no block.
\<close>

theorem CodeBlock_one_block_per_node:
  "count_list (CodeBlock nodes) (ClassCodeBlock n) =
     (if kind n = Class then count_list nodes n else 0)
   \<and> count_list (CodeBlock nodes) (EnumCodeBlock n) =
       (if kind n = Enum then count_list nodes n else 0)
   \<and> count_list (CodeBlock nodes) (InterfaceCodeBlock n) =
       (if kind n = Interface then count_list nodes n else 0)
   \<and> count_list (CodeBlock nodes) (TypeAliasCodeBlock n) =
       (if kind n = TypeAlias then count_list nodes n else 0)
   \<and> count_list (CodeBlock nodes) (VariableCodeBlock n) =
       (if kind n = Variable then count_list nodes n else 0)
   \<and> count_list (CodeBlock nodes) (FnCodeBlock ns) =
       (if ns \<noteq> [] \<and> ns = filter (\<lambda>n. kind n = Function) nodes then 1 else 0)
   \<and> length (CodeBlock nodes) =
       length (filter (\<lambda>n. kind n \<in> {Class, Enum, Interface, TypeAlias, Variable}) nodes)
       + (if filter (\<lambda>n. kind n = Function) nodes = [] then 0 else 1)"
  unfolding CodeBlock_eq
  by (auto simp add: count_concat_switch[OF count_switch_Class]
      count_concat_switch[OF count_switch_Enum] count_concat_switch[OF count_switch_Interface]
      count_concat_switch[OF count_switch_TypeAlias]
      count_concat_switch[OF count_switch_Variable] count_concat_switch_Fn
      length_concat_switch)

text \<open>
  C10. In the code blocks and in the doc sections alike, the output is the blocks of the
  nodes that are not functions, in the order of the input, followed by the one block of
  all the function nodes when there is one; no block before it is a block of functions.
  Where the function nodes stand in the input does not matter: with all of them moved to
  the front the output is the same.
\<close>

theorem function_block_last:
  "CodeBlock nodes =
     concat (map CodeBlock_switch nodes)
     @ (if filter (\<lambda>n. kind n = Function) nodes = [] then []
        else [FnCodeBlock (filter (\<lambda>n. kind n = Function) nodes)])
   \<and> \<not> list_ex is_FnCodeBlock (concat (map CodeBlock_switch nodes))
   \<and> CodeBlock
       (filter (\<lambda>n. kind n = Function) nodes @ filter (\<lambda>n. kind n \<noteq> Function) nodes) =
     CodeBlock nodes
   \<and> Doc path nodes =
       concat (map (Doc_switch path) nodes)
       @ (if filter (\<lambda>n. kind n = Function) nodes = [] then []
          else [FnDoc (filter (\<lambda>n. kind n = Function) nodes)])
   \<and> \<not> list_ex is_FnDoc (concat (map (Doc_switch path) nodes))
   \<and> Doc path
       (filter (\<lambda>n. kind n = Function) nodes @ filter (\<lambda>n. kind n \<noteq> Function) nodes) =
     Doc path nodes"
proof -
  have code:
    "CodeBlock
       (filter (\<lambda>n. kind n = Function) nodes @ filter (\<lambda>n. kind n \<noteq> Function) nodes) =
     CodeBlock nodes"
    unfolding CodeBlock_eq filter_functions_first
    by (simp add: concat_CodeBlock_switch_functions concat_CodeBlock_switch_others)
  have docs:
    "Doc path
       (filter (\<lambda>n. kind n = Function) nodes @ filter (\<lambda>n. kind n \<noteq> Function) nodes) =
     Doc path nodes"
    unfolding Doc_eq filter_functions_first
    by (simp add: concat_Doc_switch_functions concat_Doc_switch_others)
  show ?thesis
    using code docs CodeBlock_eq[of nodes] Doc_eq[of path nodes]
      CodeBlock_switch_no_fn[of nodes] Doc_switch_no_fn[of path nodes]
    by blast
qed

section \<open>The page: properties\<close>

lemma DocPage_resolve_append:
  "DocPage_resolve entries namespaces (pre @ post) =
     (case DocPage_resolve entries namespaces pre of
        (es, nss) \<Rightarrow> DocPage_resolve es nss post)"
  by (induction pre arbitrary: entries namespaces) (simp_all split: option.splits)

lemma DocPage_resolve_none:
  "list_all (\<lambda>s. findNamespace es s = None) post \<Longrightarrow> DocPage_resolve es nss post = (es, nss)"
  by (induction post) simp_all

text \<open>
  Descending into a namespace gives a strictly smaller entry list, so that a resolution
  that has descended never comes back to the entry list it started from.
\<close>

lemma findNamespace_member: "findNamespace es s = Some ns \<Longrightarrow> ns \<in> set es"
  by (auto simp add: findNamespace_def find_Some_iff)

lemma namespaceDef_elements_smaller: "size_list size (namespaceDef_elements n) < size n"
  by (cases n) simp

lemma findNamespace_smaller:
  assumes "findNamespace es s = Some ns"
  shows "size_list size (namespaceDef_elements ns) < size_list size es"
  using findNamespace_member[OF assms] namespaceDef_elements_smaller[of ns]
  by (rule size_list_estimation)

lemma DocPage_resolve_size:
  "size_list size (fst (DocPage_resolve es nss post)) \<le> size_list size es"
proof (induction post arbitrary: es nss)
  case Nil
  show ?case
    by simp
next
  case (Cons s post)
  show ?case
  proof (cases "findNamespace es s")
    case None
    then show ?thesis
      using Cons.IH[of es nss] by simp
  next
    case (Some ns)
    have "size_list size (fst (DocPage_resolve (namespaceDef_elements ns) (nss @ [ns]) post))
            \<le> size_list size (namespaceDef_elements ns)"
      by (rule Cons.IH)
    with findNamespace_smaller[OF Some] Some show ?thesis
      by simp
  qed
qed

lemma DocPage_resolve_same_entries:
  "(fst (DocPage_resolve es nss post) = es) = list_all (\<lambda>s. findNamespace es s = None) post"
proof (induction post arbitrary: nss)
  case Nil
  show ?case
    by simp
next
  case (Cons s post)
  show ?case
  proof (cases "findNamespace es s")
    case None
    then show ?thesis
      using Cons.IH[of nss] by simp
  next
    case (Some ns)
    have "size_list size (fst (DocPage_resolve (namespaceDef_elements ns) (nss @ [ns]) post))
            < size_list size es"
      using DocPage_resolve_size[of "namespaceDef_elements ns" "nss @ [ns]" post]
        findNamespace_smaller[OF Some]
      by simp
    then have "fst (DocPage_resolve (namespaceDef_elements ns) (nss @ [ns]) post) \<noteq> es"
      by auto
    with Some show ?thesis
      by simp
  qed
qed

lemma DocPage_no_item:
  "\<not> truthy item \<Longrightarrow>
     \<not> list_ex is_ErrorMessage (parts (fst (DocPage pu cz ia idp ac state item)))"
  by (simp add: DocPage_def Let_def DocNodes_def)

lemma DocPage_empty:
  assumes "item \<noteq> []" and "DocPage_lookup state item = (path, state', entries', [])"
  shows \<open>DocPage pu cz ia idp ac state (Some item) =
     (Page ''main''
        [Heading ''mainHeader'' ''Deno Doc'',
         ErrorMessage ''Entry not found''
           (''The document entry named "'' @ item @ ''" was not found in specifier "''
            @ state_url state @ ''".'')],
      state')\<close>
  using assms by (simp add: DocPage_def Let_def truthy_def)

lemma DocPage_nonempty:
  assumes "item \<noteq> []" and "DocPage_lookup state item = (path, state', entries', nodes)"
      and "nodes \<noteq> []"
  shows "DocPage pu cz ia idp ac state (Some item) =
     (Page ''content''
        ([DocMeta (state_url state) (jsDoc_doc (DocPage_jsDoc nodes)) (Some item),
          SideBarHeader (state_url state)]
         @ (case DocToc nodes of None \<Rightarrow> [] | Some toc \<Rightarrow> [Toc toc])
         @ [Heading ''docTitle'' item]
         @ (if endsWith (state_url state) ''.d.ts'' \<or> startsWith (state_url state) ''deno/''
            then []
            else [UsageBlock
                    (Usage pu cz (state_url state) (Some item) (Some (isTypeOnly nodes)))])
         @ (if ia (hd nodes) then [Tag ''yellow'' ''abstract''] else [])
         @ (if idp (DocPage_jsDoc nodes) then [Tag ''gray'' ''deprecated''] else [])
         @ [JsDocBlock (DocPage_jsDoc nodes)]
         @ map Code (CodeBlock nodes)
         @ map DocSection (Doc path nodes)),
      state')"
  using assms by (cases nodes) (simp_all add: DocPage_def Let_def truthy_def)

lemma DocPage_item_no_error:
  assumes "item \<noteq> []" and "DocPage_lookup state item = (path, state', entries', nodes)"
      and "nodes \<noteq> []"
  shows "\<not> list_ex is_ErrorMessage (parts (fst (DocPage pu cz ia idp ac state (Some item))))"
  unfolding DocPage_nonempty[OF assms]
  by (simp add: list_ex_iff split: option.splits) auto

lemma Usage_type_keyword:
  "item \<noteq> [] \<Longrightarrow> usageTypeKeyword (Usage pu cz u (Some item) (Some b)) = b"
  by (simp add: Usage_def Let_def truthy_def truthyFlag_def)

lemma Usage_copy_type:
  "item \<noteq> [] \<Longrightarrow>
     startsWith (usageCopy (Usage pu cz u (Some item) (Some b))) ''import type '' = b"
  by (simp add: Usage_def parseUsage_def Let_def truthy_def truthyFlag_def startsWith_def
      split: prod.splits)

lemma example_lookup_nested:
  "DocPage_lookup example_state ''X.Ns.Item'' =
     ([''X'', ''Ns''], example_state\<lparr>state_namespaces := [example_namespace]\<rparr>,
      [example_item], [example_item])"
  by (simp add: DocPage_lookup_def Let_def pop_def findNamespace_def example_state_def
      example_namespace_def example_item_def)

lemma example_lookup_top:
  "DocPage_lookup example_state ''Item'' = ([], example_state, state_entries example_state, [])"
  by (simp add: DocPage_lookup_def Let_def pop_def example_state_def example_namespace_def)

text \<open>
  C2, as the code has it. In the resolution of a dotted path, a segment before the last
  one that does not name a namespace of the current entry list is skipped, and nothing
  more: the entry list and the namespaces found are left as they were, and the segments
  after it are still looked up, from the entry list that was reached before it. The entry
  list of the final lookup is the one reached before that segment if and only if none of
  the segments after it names a namespace there; the namespaces found are then also the
  ones found before that segment.
\<close>

theorem DocPage_resolve_skips_segment:
  assumes "DocPage_resolve entries namespaces pre = (es, nss)"
      and "findNamespace es seg = None"
  shows "DocPage_resolve entries namespaces (pre @ seg # post) = DocPage_resolve es nss post
         \<and> (fst (DocPage_resolve entries namespaces (pre @ seg # post)) = es)
             = list_all (\<lambda>s. findNamespace es s = None) post
         \<and> (list_all (\<lambda>s. findNamespace es s = None) post \<longrightarrow>
              DocPage_resolve entries namespaces (pre @ seg # post) = (es, nss))"
  using assms
  by (simp add: DocPage_resolve_append DocPage_resolve_none DocPage_resolve_same_entries)

text \<open>
  For the item \<^verbatim>\<open>Ns.X.Y.Item\<close> in the sample module, \<^verbatim>\<open>Ns\<close> is found, and neither
  \<^verbatim>\<open>X\<close> nor \<^verbatim>\<open>Y\<close> names a namespace in it: the lookup is in the elements of \<^verbatim>\<open>Ns\<close>.
\<close>

theorem DocPage_resolve_skips_segment_witness:
  "DocPage_resolve [example_namespace] [] [''Ns''] = ([example_item], [example_namespace])
   \<and> findNamespace [example_item] ''X'' = None
   \<and> list_all (\<lambda>s. findNamespace [example_item] s = None) [''Y'']
   \<and> DocPage_resolve [example_namespace] [] ([''Ns''] @ ''X'' # [''Y'']) =
       ([example_item], [example_namespace])"
proof -
  have pre: "DocPage_resolve [example_namespace] [] [''Ns''] =
               ([example_item], [example_namespace])"
    by (simp add: findNamespace_def example_namespace_def)
  have seg: "findNamespace [example_item] ''X'' = None"
    by (simp add: findNamespace_def example_item_def)
  have post: "list_all (\<lambda>s. findNamespace [example_item] s = None) [''Y'']"
    by (simp add: findNamespace_def example_item_def)
  from DocPage_resolve_skips_segment[OF pre seg, of "[''Y'']"] post
  have "DocPage_resolve [example_namespace] [] ([''Ns''] @ ''X'' # [''Y'']) =
          ([example_item], [example_namespace])"
    by blast
  with pre seg post show ?thesis
    by blast
qed

text \<open>
  For the item \<^verbatim>\<open>X.Ns.Item\<close> in the sample module, \<^verbatim>\<open>X\<close> names no namespace at the
  top level, and yet \<^verbatim>\<open>Ns\<close>, listed after it, is traversed: the final lookup is in the
  elements of \<^verbatim>\<open>Ns\<close>, where \<^verbatim>\<open>Item\<close> is found, and not in the top-level entries, which
  were the entry list reached before \<^verbatim>\<open>X\<close> and have no entry \<^verbatim>\<open>Item\<close>.
\<close>

theorem DocPage_resolve_continues_after_failure:
  "findNamespace (state_entries example_state) ''X'' = None
   \<and> DocPage_lookup example_state ''X.Ns.Item'' =
       ([''X'', ''Ns''], example_state\<lparr>state_namespaces := [example_namespace]\<rparr>,
        [example_item], [example_item])
   \<and> [example_item] \<noteq> state_entries example_state
   \<and> DocPage_lookup example_state ''Item'' =
       ([], example_state, state_entries example_state, [])"
  using example_lookup_nested example_lookup_top
  by (simp add: findNamespace_def example_state_def example_namespace_def example_item_def)

text \<open>
  C4. For a non-empty item, let the lookup give the target nodes. When there are none,
  the page is the error page: the heading and the message titled \<^verbatim>\<open>Entry not found\<close>
  whose text names the item and the module, with no code block and no doc section. A
  page has an error message only then: not when there are target nodes, and not for an
  item that is missing or empty, for which the page of the module is rendered.
\<close>

theorem DocPage_entry_not_found:
  assumes "item \<noteq> []" and "DocPage_lookup state item = (path, state', entries', nodes)"
  shows \<open>(nodes = [] \<longrightarrow>
            DocPage pu cz ia idp ac state (Some item) =
              (Page ''main''
                 [Heading ''mainHeader'' ''Deno Doc'',
                  ErrorMessage ''Entry not found''
                    (''The document entry named "'' @ item
                     @ ''" was not found in specifier "'' @ state_url state @ ''".'')],
               state')
            \<and> \<not> list_ex is_Code (parts (fst (DocPage pu cz ia idp ac state (Some item))))
            \<and> \<not> list_ex is_DocSection
                    (parts (fst (DocPage pu cz ia idp ac state (Some item)))))
         \<and> (list_ex is_ErrorMessage (parts (fst (DocPage pu cz ia idp ac state (Some item))))
              = (nodes = []))
         \<and> \<not> list_ex is_ErrorMessage (parts (fst (DocPage pu cz ia idp ac state None)))
         \<and> \<not> list_ex is_ErrorMessage (parts (fst (DocPage pu cz ia idp ac state (Some []))))\<close>
proof (cases "nodes = []")
  case True
  with assms have l: "DocPage_lookup state item = (path, state', entries', [])"
    by simp
  show ?thesis
    using True DocPage_no_item[of None pu cz ia idp ac state]
      DocPage_no_item[of "Some []" pu cz ia idp ac state]
    by (simp add: DocPage_empty[OF assms(1) l] truthy_def)
next
  case False
  show ?thesis
    using False DocPage_item_no_error[OF assms False, of pu cz ia idp ac]
      DocPage_no_item[of None pu cz ia idp ac state]
      DocPage_no_item[of "Some []" pu cz ia idp ac state]
    by (simp add: truthy_def)
qed

text \<open>The item \<^verbatim>\<open>NoSuchName\<close> in the sample module.\<close>

theorem DocPage_entry_not_found_witness:
  \<open>''NoSuchName'' \<noteq> []
   \<and> DocPage_lookup example_state ''NoSuchName'' =
       ([], example_state, [example_namespace], [])
   \<and> DocPage example_parseURL example_camelize example_isAbstract example_isDeprecated
       example_asCollection example_state (Some ''NoSuchName'') =
       (Page ''main''
          [Heading ''mainHeader'' ''Deno Doc'',
           ErrorMessage ''Entry not found''
             (''The document entry named "NoSuchName" was not found in specifier ''
              @ ''"https://deno.land/x/p/mod.ts".'')],
        example_state)\<close>
proof -
  have item: "''NoSuchName'' \<noteq> []"
    by simp
  have lookup: "DocPage_lookup example_state ''NoSuchName'' =
                  ([], example_state, [example_namespace], [])"
    by (simp add: DocPage_lookup_def Let_def pop_def example_state_def example_namespace_def)
  have url: "state_url example_state = ''https://deno.land/x/p/mod.ts''"
    by (simp add: example_state_def)
  from DocPage_entry_not_found[OF item lookup, of example_parseURL example_camelize
      example_isAbstract example_isDeprecated example_asCollection]
  have \<open>DocPage example_parseURL example_camelize example_isAbstract example_isDeprecated
          example_asCollection example_state (Some ''NoSuchName'') =
        (Page ''main''
           [Heading ''mainHeader'' ''Deno Doc'',
            ErrorMessage ''Entry not found''
              (''The document entry named "NoSuchName" was not found in specifier ''
               @ ''"https://deno.land/x/p/mod.ts".'')],
         example_state)\<close>
    by (simp add: url)
  with item lookup show ?thesis
    by blast
qed

text \<open>
  C5. On an item page (a non-empty item with at least one target node) the usage block
  is rendered if and only if the module does not end with \<^verbatim>\<open>.d.ts\<close> and does not start
  with \<^verbatim>\<open>deno/\<close>, and there is at most one. It is the usage of the item with the flag
  \<open>isTypeOnly\<close> of the target nodes, so that it shows the \<^verbatim>\<open>type\<close> keyword, and its
  statement starts with \<^verbatim>\<open>import type\<close>, if and only if every target node is an interface
  or a type alias.
\<close>

theorem DocPage_usage_block:
  assumes "item \<noteq> []" and "DocPage_lookup state item = (path, state', entries', nodes)"
      and "nodes \<noteq> []"
  shows "filter is_UsageBlock (parts (fst (DocPage pu cz ia idp ac state (Some item)))) =
           (if endsWith (state_url state) ''.d.ts'' \<or> startsWith (state_url state) ''deno/''
            then []
            else [UsageBlock
                    (Usage pu cz (state_url state) (Some item) (Some (isTypeOnly nodes)))])
         \<and> list_ex is_UsageBlock (parts (fst (DocPage pu cz ia idp ac state (Some item)))) =
             (\<not> endsWith (state_url state) ''.d.ts'' \<and> \<not> startsWith (state_url state) ''deno/'')
         \<and> usageTypeKeyword
             (Usage pu cz (state_url state) (Some item) (Some (isTypeOnly nodes))) =
             (\<forall>n \<in> set nodes. kind n = Interface \<or> kind n = TypeAlias)
         \<and> startsWith
             (usageCopy (Usage pu cz (state_url state) (Some item) (Some (isTypeOnly nodes))))
             ''import type '' =
             (\<forall>n \<in> set nodes. kind n = Interface \<or> kind n = TypeAlias)"
proof -
  have blocks:
    "filter is_UsageBlock (parts (fst (DocPage pu cz ia idp ac state (Some item)))) =
       (if endsWith (state_url state) ''.d.ts'' \<or> startsWith (state_url state) ''deno/''
        then []
        else [UsageBlock
                (Usage pu cz (state_url state) (Some item) (Some (isTypeOnly nodes)))])"
    unfolding DocPage_nonempty[OF assms]
    by (simp add: filter_empty_conv split: option.splits) auto
  have some:
    "list_ex is_UsageBlock (parts (fst (DocPage pu cz ia idp ac state (Some item)))) =
       (filter is_UsageBlock (parts (fst (DocPage pu cz ia idp ac state (Some item)))) \<noteq> [])"
    by (simp add: list_ex_iff filter_empty_conv)
  show ?thesis
    unfolding some
    using blocks
    by (simp add: Usage_type_keyword[OF assms(1)] Usage_copy_type[OF assms(1)]
        isTypeOnly_def list_all_iff)
qed

text \<open>The item \<^verbatim>\<open>A\<close> in the module whose one entry is the interface \<^verbatim>\<open>A\<close>.\<close>

theorem DocPage_usage_block_witness:
  "''A'' \<noteq> []
   \<and> DocPage_lookup example_state_interface ''A'' =
       ([], example_state_interface, [example_interface], [example_interface])
   \<and> [example_interface] \<noteq> []
   \<and> filter is_UsageBlock
       (parts (fst (DocPage example_parseURL example_camelize example_isAbstract
          example_isDeprecated example_asCollection example_state_interface (Some ''A'')))) =
       [UsageBlock (Usage example_parseURL example_camelize ''https://deno.land/x/p/mod.ts''
          (Some ''A'') (Some True))]
   \<and> usageTypeKeyword (Usage example_parseURL example_camelize ''https://deno.land/x/p/mod.ts''
       (Some ''A'') (Some True)) = True"
proof -
  have item: "''A'' \<noteq> []"
    by simp
  have lookup: "DocPage_lookup example_state_interface ''A'' =
                  ([], example_state_interface, [example_interface], [example_interface])"
    by (simp add: DocPage_lookup_def Let_def pop_def example_state_interface_def
        example_interface_def)
  have nodes: "[example_interface] \<noteq> []"
    by simp
  have url: "state_url example_state_interface = ''https://deno.land/x/p/mod.ts''"
    by (simp add: example_state_interface_def)
  have shown: "\<not> endsWith ''https://deno.land/x/p/mod.ts'' ''.d.ts''
               \<and> \<not> startsWith ''https://deno.land/x/p/mod.ts'' ''deno/''"
    by (simp add: endsWith_def startsWith_def)
  have only: "isTypeOnly [example_interface] = True"
    by (simp add: isTypeOnly_def example_interface_def)
  note usage = DocPage_usage_block[OF item lookup nodes, of example_parseURL example_camelize
      example_isAbstract example_isDeprecated example_asCollection, unfolded url only]
  from usage shown
  have blocks: "filter is_UsageBlock
       (parts (fst (DocPage example_parseURL example_camelize example_isAbstract
          example_isDeprecated example_asCollection example_state_interface (Some ''A'')))) =
       [UsageBlock (Usage example_parseURL example_camelize ''https://deno.land/x/p/mod.ts''
          (Some ''A'') (Some True))]"
    by simp
  from usage
  have keyword: "usageTypeKeyword (Usage example_parseURL example_camelize
       ''https://deno.land/x/p/mod.ts'' (Some ''A'') (Some True)) = True"
    by (simp add: example_interface_def)
  from item lookup nodes blocks keyword show ?thesis
    by blast
qed

end
